theory Spec2Isabelle
  imports Complex_Main
begin

section \<open>JavaScript numbers\<close>

text \<open>
  The analyzer (\<^verbatim>\<open>ConsciousnessAnalyzer\<close> in \<^verbatim>\<open>server/patterns.ts\<close>, bundled into
  \<^verbatim>\<open>dist/index.js\<close>) computes with JavaScript numbers, which are IEEE 754 binary64 values.
  \<open>Num x\<close> is the finite number of value \<open>x\<close> other than negative zero (\<open>Num 0\<close> is \<open>+0\<close>),
  \<open>NegZero\<close> is \<open>-0\<close>. Every arithmetic operation returns the exact result rounded to the
  nearest binary64 value, ties to even; no operation faults.
\<close>

datatype jsnum = Num rat | NegZero | PosInfinity | NegInfinity | NaN

text \<open>The number of binary digits of a positive integer.\<close>

function bit_length :: "int \<Rightarrow> int" where
  "bit_length n = (if n \<le> 0 then 0 else 1 + bit_length (n div 2))"
  by pat_completeness auto
termination
  by (relation "measure nat") auto

text \<open>
  Exact values are handled as fractions \<open>(n, d)\<close> of integers with \<open>d > 0\<close>. \<open>scale2 f k\<close> is
  the fraction \<open>f\<close> times 2 to the power \<open>k\<close>; \<open>ilog2 f\<close>, for \<open>f > 0\<close>, is the exponent \<open>e\<close> with
  \<open>2 ^ e \<le> f < 2 ^ (e + 1)\<close>; \<open>round_half_even f\<close> is the integer nearest to \<open>f\<close>, the even one at
  a tie.
\<close>

definition scale2 :: "int \<times> int \<Rightarrow> int \<Rightarrow> int \<times> int" where
  "scale2 f k =
     (case f of (n, d) \<Rightarrow> if 0 \<le> k then (n * 2 ^ nat k, d) else (n, d * 2 ^ nat (- k)))"

definition ilog2 :: "int \<times> int \<Rightarrow> int" where
  "ilog2 f =
     (case f of (n, d) \<Rightarrow>
        let k = bit_length n - bit_length d
        in case scale2 f (- k) of (n', d') \<Rightarrow> if d' \<le> n' then k else k - 1)"

definition round_half_even :: "int \<times> int \<Rightarrow> int" where
  "round_half_even f =
     (case f of (n, d) \<Rightarrow>
        let m = n div d; r = n mod d
        in if 2 * r < d then m
           else if d < 2 * r then m + 1
           else if even m then m else m + 1)"

definition of_fraction :: "int \<times> int \<Rightarrow> rat" where
  "of_fraction f = (case f of (n, d) \<Rightarrow> of_int n / of_int d)"

text \<open>
  Rounding of an exact result \<open>x\<close> to binary64. The significand has 53 bits and the least
  exponent of a unit in the last place is -1074: with \<open>e\<close> the exponent of \<open>\<bar>x\<bar>\<close> and
  \<open>q = max (e - 52) (- 1074)\<close>, the result is \<open>m * 2 ^ q\<close> for \<open>m\<close> the integer nearest to
  \<open>\<bar>x\<bar> / 2 ^ q\<close>, ties to even. As \<open>m\<close> is at most \<open>2 ^ 53\<close>, the result reaches \<open>2 ^ 1024\<close>, and
  overflows to an infinity, exactly when \<open>e > 1023\<close>, or \<open>e = 1023\<close> and \<open>m = 2 ^ 53\<close>. A non-zero
  \<open>x\<close> that rounds to zero keeps its sign. An operation whose exact result is zero sets the
  sign itself.
\<close>

definition fl :: "rat \<Rightarrow> jsnum" where
  "fl x =
     (if x = 0 then Num 0
      else
        let f = quotient_of \<bar>x\<bar>;
            e = ilog2 f;
            q = max (e - 52) (- 1074);
            m = round_half_even (scale2 f (- q));
            r = of_fraction (scale2 (m, 1) q)
        in if 1023 < e \<or> (e = 1023 \<and> m = 2 ^ 53)
           then (if 0 < x then PosInfinity else NegInfinity)
           else if m = 0 then (if 0 < x then Num 0 else NegZero)
           else Num (if 0 < x then r else - r))"

text \<open>Array lengths and counts are integers below \<open>2 ^ 32\<close>, which are binary64 values.\<close>

definition js_nat :: "nat \<Rightarrow> jsnum" where
  "js_nat n = Num (of_nat n)"

definition js_int :: "int \<Rightarrow> jsnum" where
  "js_int i = Num (of_int i)"

fun is_zero :: "jsnum \<Rightarrow> bool" where
  "is_zero (Num x) = (x = 0)"
| "is_zero NegZero = True"
| "is_zero PosInfinity = False"
| "is_zero NegInfinity = False"
| "is_zero NaN = False"

fun is_inf :: "jsnum \<Rightarrow> bool" where
  "is_inf (Num x) = False"
| "is_inf NegZero = False"
| "is_inf PosInfinity = True"
| "is_inf NegInfinity = True"
| "is_inf NaN = False"

text \<open>The sign bit and the value of a number that is not NaN.\<close>

fun is_neg :: "jsnum \<Rightarrow> bool" where
  "is_neg (Num x) = (x < 0)"
| "is_neg NegZero = True"
| "is_neg PosInfinity = False"
| "is_neg NegInfinity = True"
| "is_neg NaN = False"

fun val :: "jsnum \<Rightarrow> rat" where
  "val (Num x) = x"
| "val NegZero = 0"
| "val PosInfinity = 0"
| "val NegInfinity = 0"
| "val NaN = 0"

definition signed_zero :: "bool \<Rightarrow> jsnum" where
  "signed_zero negative = (if negative then NegZero else Num 0)"

definition signed_inf :: "bool \<Rightarrow> jsnum" where
  "signed_inf negative = (if negative then NegInfinity else PosInfinity)"

fun js_neg :: "jsnum \<Rightarrow> jsnum" where
  "js_neg (Num x) = (if x = 0 then NegZero else Num (- x))"
| "js_neg NegZero = Num 0"
| "js_neg PosInfinity = NegInfinity"
| "js_neg NegInfinity = PosInfinity"
| "js_neg NaN = NaN"

text \<open>
  \<^verbatim>\<open>a + b\<close> on numbers: opposite infinities give NaN; a zero sum is \<open>+0\<close> unless both operands
  are \<open>-0\<close>. \<^verbatim>\<open>a - b\<close> is \<^verbatim>\<open>a + (-b)\<close>.
\<close>

definition js_add :: "jsnum \<Rightarrow> jsnum \<Rightarrow> jsnum" where
  "js_add a b =
     (if a = NaN \<or> b = NaN then NaN
      else if is_inf a then (if is_inf b \<and> a \<noteq> b then NaN else a)
      else if is_inf b then b
      else if is_zero a \<and> is_zero b then (if a = NegZero \<and> b = NegZero then NegZero else Num 0)
      else fl (val a + val b))"

definition js_sub :: "jsnum \<Rightarrow> jsnum \<Rightarrow> jsnum" where
  "js_sub a b = js_add a (js_neg b)"

text \<open>\<^verbatim>\<open>a * b\<close>: zero times infinity is NaN; the sign of the result is the product of the signs.\<close>

definition js_mul :: "jsnum \<Rightarrow> jsnum \<Rightarrow> jsnum" where
  "js_mul a b =
     (if a = NaN \<or> b = NaN then NaN
      else if is_inf a \<or> is_inf b
        then (if is_zero a \<or> is_zero b then NaN else signed_inf (is_neg a \<noteq> is_neg b))
      else if is_zero a \<or> is_zero b then signed_zero (is_neg a \<noteq> is_neg b)
      else fl (val a * val b))"

text \<open>
  \<^verbatim>\<open>a / b\<close>: \<open>0 / 0\<close> and infinity over infinity are NaN; a non-zero number over zero is an
  infinity.
\<close>

definition js_div :: "jsnum \<Rightarrow> jsnum \<Rightarrow> jsnum" where
  "js_div a b =
     (if a = NaN \<or> b = NaN then NaN
      else if is_inf a then (if is_inf b then NaN else signed_inf (is_neg a \<noteq> is_neg b))
      else if is_inf b then signed_zero (is_neg a \<noteq> is_neg b)
      else if is_zero b then (if is_zero a then NaN else signed_inf (is_neg a \<noteq> is_neg b))
      else if is_zero a then signed_zero (is_neg a \<noteq> is_neg b)
      else fl (val a / val b))"

text \<open>Comparisons: false when an operand is NaN; the two zeros are equal.\<close>

definition js_lt :: "jsnum \<Rightarrow> jsnum \<Rightarrow> bool" where
  "js_lt a b =
     (if a = NaN \<or> b = NaN then False
      else if a = PosInfinity \<or> b = NegInfinity then False
      else if a = NegInfinity \<or> b = PosInfinity then True
      else val a < val b)"

definition js_gt :: "jsnum \<Rightarrow> jsnum \<Rightarrow> bool" where
  "js_gt a b = js_lt b a"

definition js_ge :: "jsnum \<Rightarrow> jsnum \<Rightarrow> bool" where
  "js_ge a b =
     (if a = NaN \<or> b = NaN then False
      else if a = PosInfinity \<or> b = NegInfinity then True
      else if a = NegInfinity \<or> b = PosInfinity then False
      else val b \<le> val a)"

text \<open>
  \<^verbatim>\<open>Math.round\<close> returns the nearest integer, the larger one at a tie, which is
  \<^const>\<open>round\<close> (\<open>\<lfloor>x + 1/2\<rfloor>\<close>) on the exact value; the result is \<open>-0\<close> for \<open>-0\<close> and for
  \<open>-1/2 \<le> x < 0\<close>.
\<close>

fun Math_round :: "jsnum \<Rightarrow> jsnum" where
  "Math_round (Num x) = (if round x = 0 \<and> x < 0 then NegZero else Num (of_int (round x)))"
| "Math_round NegZero = NegZero"
| "Math_round PosInfinity = PosInfinity"
| "Math_round NegInfinity = NegInfinity"
| "Math_round NaN = NaN"

text \<open>\<^verbatim>\<open>Math.min(a, b)\<close>: NaN if an operand is NaN; \<open>-0\<close> is below \<open>+0\<close>.\<close>

definition Math_min :: "jsnum \<Rightarrow> jsnum \<Rightarrow> jsnum" where
  "Math_min a b =
     (if a = NaN \<or> b = NaN then NaN
      else if js_lt a b then a
      else if js_lt b a then b
      else if a = NegZero then a else b)"

section \<open>JavaScript values, objects and arrays\<close>

text \<open>
  The value of a property read is a number or, for a member inherited from
  \<^verbatim>\<open>Object.prototype\<close>, a function or an object. \<open>NonNumber\<close> stands for such a value and for
  the strings that \<^verbatim>\<open>+\<close> builds from it: \<^verbatim>\<open>+\<close> with an operand that is not a number
  concatenates strings, the result contains the text of the function or object, and its
  conversion to a number is NaN.
\<close>

datatype jsval = Number jsnum | NonNumber

fun js_plus :: "jsval \<Rightarrow> jsval \<Rightarrow> jsval" where
  "js_plus (Number a) (Number b) = Number (js_add a b)"
| "js_plus (Number a) NonNumber = NonNumber"
| "js_plus NonNumber b = NonNumber"

fun to_number :: "jsval \<Rightarrow> jsnum" where
  "to_number (Number a) = a"
| "to_number NonNumber = NaN"

text \<open>\<^verbatim>\<open>xs.reduce((a, b) => a + b, 0)\<close>, on values and on numbers.\<close>

definition reduce_plus :: "jsval list \<Rightarrow> jsval" where
  "reduce_plus xs = foldl js_plus (Number (Num 0)) xs"

definition reduce_add :: "jsnum list \<Rightarrow> jsnum" where
  "reduce_add xs = foldl js_add (Num 0) xs"

text \<open>
  \<^verbatim>\<open>Array.prototype.slice\<close>: a negative index counts from the end, and both indices are
  clamped to the array.
\<close>

definition rel_index :: "nat \<Rightarrow> int \<Rightarrow> nat" where
  "rel_index len k = (if k < 0 then nat (max (int len + k) 0) else min (nat k) len)"

definition slice :: "'a list \<Rightarrow> int \<Rightarrow> int \<Rightarrow> 'a list" where
  "slice xs start fin =
     (let s = rel_index (length xs) start; e = rel_index (length xs) fin
      in take (e - s) (drop s xs))"

definition slice_from :: "'a list \<Rightarrow> int \<Rightarrow> 'a list" where
  "slice_from xs start = drop (rel_index (length xs) start) xs"

text \<open>\<^verbatim>\<open>xs[i]\<close> is \<^verbatim>\<open>undefined\<close> outside the array.\<close>

definition array_get :: "'a list \<Rightarrow> int \<Rightarrow> 'a option" where
  "array_get xs i = (if 0 \<le> i \<and> i < int (length xs) then Some (xs ! nat i) else None)"

fun join :: "string \<Rightarrow> string list \<Rightarrow> string" where
  "join sep [] = []"
| "join sep [x] = x"
| "join sep (x # y # ys) = x @ sep @ join sep (y # ys)"

fun indexOf :: "'a list \<Rightarrow> 'a \<Rightarrow> int" where
  "indexOf [] x = - 1"
| "indexOf (y # ys) x =
     (if y = x then 0 else (let r = indexOf ys x in if r < 0 then - 1 else r + 1))"

text \<open>
  A \<^verbatim>\<open>Set\<close> keeps its elements in insertion order; \<^verbatim>\<open>add\<close> of a present element does
  nothing. \<open>new_Set xs\<close> is \<^verbatim>\<open>new Set(xs)\<close>.
\<close>

definition set_add :: "'a list \<Rightarrow> 'a \<Rightarrow> 'a list" where
  "set_add s x = (if x \<in> set s then s else s @ [x])"

definition new_Set :: "'a list \<Rightarrow> 'a list" where
  "new_Set xs = fold (\<lambda>x s. set_add s x) xs []"

text \<open>Template strings print a count in decimal.\<close>

fun string_of_nat :: "nat \<Rightarrow> string" where
  "string_of_nat n =
     (if n < 10 then [''0123456789'' ! n]
      else string_of_nat (n div 10) @ [''0123456789'' ! (n mod 10)])"

section \<open>Data model\<close>

text \<open>
  A \<^verbatim>\<open>Record<string, number>\<close> is the list of its own properties in the order in which
  \<^verbatim>\<open>Object.keys\<close> and \<^verbatim>\<open>Object.values\<close> enumerate them, with distinct keys. A property read
  \<^verbatim>\<open>obj[key]\<close> finds an own property first and then the members of \<^verbatim>\<open>Object.prototype\<close>,
  whose names are listed in \<open>objectPrototypeNames\<close>; it is \<^verbatim>\<open>undefined\<close> otherwise. Strings are
  \<^typ>\<open>string\<close>; the length of the journal entry counts its elements (JavaScript counts UTF-16
  code units, which is the same on ASCII text).
\<close>

type_synonym scores = "(string \<times> jsnum) list"

definition Object_keys :: "scores \<Rightarrow> string list" where
  "Object_keys m = map fst m"

definition Object_values :: "scores \<Rightarrow> jsnum list" where
  "Object_values m = map snd m"

definition objectPrototypeNames :: "string list" where
  "objectPrototypeNames =
     [''constructor'', ''hasOwnProperty'', ''isPrototypeOf'', ''propertyIsEnumerable'',
      ''toLocaleString'', ''toString'', ''valueOf'', ''__proto__'',
      ''__defineGetter__'', ''__defineSetter__'', ''__lookupGetter__'', ''__lookupSetter__'']"

definition get_property :: "scores \<Rightarrow> string \<Rightarrow> jsval option" where
  "get_property m key =
     (case map_of m key of
        Some v \<Rightarrow> Some (Number v)
      | None \<Rightarrow> if key \<in> set objectPrototypeNames then Some NonNumber else None)"

record daily_entry =
  date :: string
  categories :: scores
  thoughts :: scores
  emotionTag :: string
  identityTag :: string
  journalEntry :: string

record cycle =
  pattern :: string
  frequency :: nat
  lastOccurrence :: string
  confidence :: jsnum

record category_trend =
  category :: string
  trend :: string
  change :: jsnum

record thought_pattern =
  thought :: string
  correlation :: jsnum
  impact :: string

record pattern_result =
  emotionalCycles :: "cycle list"
  categoryTrends :: "category_trend list"
  thoughtPatterns :: "thought_pattern list"
  readinessScore :: int
  insights :: "string list"

record requirement =
  req_entries :: int
  req_patterns :: int
  req_coherence :: int
  req_tasks :: "string list"

record next_level =
  entriesNeeded :: int
  patternsNeeded :: int
  coherenceNeeded :: int
  specificTasks :: "string list"

record level_progress =
  currentLevel :: int
  entriesCompleted :: int
  patternsIdentified :: int
  coherenceDays :: int
  achievements :: "string list"
  nextLevelRequirements :: next_level

section \<open>Helper methods\<close>

text \<open>
  The test of \<^verbatim>\<open>countPatternOccurrences\<close> and \<^verbatim>\<open>findLastOccurrenceIndex\<close>:
  \<^verbatim>\<open>sequence.slice(i, i + pattern.length).join("") === pattern.join("")\<close>.
\<close>

definition window_matches :: "string list \<Rightarrow> string list \<Rightarrow> nat \<Rightarrow> bool" where
  "window_matches sequence pat i =
     (join [] (slice sequence (int i) (int i + int (length pat))) = join [] pat)"

text \<open>
  \<^verbatim>\<open>for (let i = 0; i <= sequence.length - pattern.length; i++)\<close>: no iteration when the
  pattern is longer than the sequence.
\<close>

definition countPatternOccurrences :: "string list \<Rightarrow> string list \<Rightarrow> nat" where
  "countPatternOccurrences sequence pat =
     (if length sequence < length pat then 0
      else fold (\<lambda>i count. if window_matches sequence pat i then count + 1 else count)
             [0..<Suc (length sequence - length pat)] 0)"

text \<open>\<^verbatim>\<open>for (let i = sequence.length - pattern.length; i >= 0; i--)\<close>, returning -1 at the end.\<close>

fun findLast_from :: "string list \<Rightarrow> string list \<Rightarrow> nat \<Rightarrow> int" where
  "findLast_from sequence pat 0 = (if window_matches sequence pat 0 then 0 else - 1)"
| "findLast_from sequence pat (Suc i) =
     (if window_matches sequence pat (Suc i) then int (Suc i)
      else findLast_from sequence pat i)"

definition findLastOccurrenceIndex :: "string list \<Rightarrow> string list \<Rightarrow> int" where
  "findLastOccurrenceIndex sequence pat =
     (if length sequence < length pat then - 1
      else findLast_from sequence pat (length sequence - length pat))"

text \<open>
  \<^verbatim>\<open>categories[category] !== void 0\<close> is a property read: it also holds for a record without
  the key when the label names a member of \<^verbatim>\<open>Object.prototype\<close>.
\<close>

definition calculateCategoryAverage :: "daily_entry list \<Rightarrow> string \<Rightarrow> jsnum option" where
  "calculateCategoryAverage entries cat =
     (let vals = fold (\<lambda>e vals. case get_property (categories e) cat of
                                   None \<Rightarrow> vals
                                 | Some v \<Rightarrow> vals @ [v]) entries []
      in if length vals > 0
         then Some (js_div (to_number (reduce_plus vals)) (js_nat (length vals)))
         else None)"

definition moodScore :: "string \<Rightarrow> jsnum" where
  "moodScore tag =
     (let m = indexOf [''low'', ''neutral'', ''elevated'', ''high'', ''peak''] tag
      in if m \<ge> 0 then js_int m else Num 2)"

text \<open>
  \<^verbatim>\<open>calculateThoughtImpact\<close> pushes the thought value and the mood value of the same record
  together; the pairs are kept as one list. In \<^verbatim>\<open>thoughtValues[i] - avgThought\<close> a value that
  is not a number converts to NaN.
\<close>

definition thoughtMoodPairs :: "daily_entry list \<Rightarrow> string \<Rightarrow> (jsval \<times> jsnum) list" where
  "thoughtMoodPairs entries th =
     fold (\<lambda>e ps. case get_property (thoughts e) th of
                     None \<Rightarrow> ps
                   | Some v \<Rightarrow> ps @ [(v, moodScore (emotionTag e))]) entries []"

definition calculateThoughtImpact :: "daily_entry list \<Rightarrow> string \<Rightarrow> jsnum" where
  "calculateThoughtImpact entries th =
     (let ps = thoughtMoodPairs entries th;
          thoughtValues = map fst ps;
          moodValues = map snd ps
      in if length thoughtValues < 3 then Num 0
         else
           let avgThought = js_div (to_number (reduce_plus thoughtValues))
                              (js_nat (length thoughtValues));
               avgMood = js_div (reduce_add moodValues) (js_nat (length moodValues));
               corr = fold (\<lambda>i c. js_add c
                                     (js_mul (js_sub (to_number (thoughtValues ! i)) avgThought)
                                             (js_sub (moodValues ! i) avgMood)))
                        [0..<length thoughtValues] (Num 0)
           in js_div (js_div corr (js_nat (length thoughtValues))) (Num 10))"

section \<open>The analyzers\<close>

definition arrow :: string where
  "arrow = [CHR 0x20, CHR 0xE2, CHR 0x86, CHR 0x92, CHR 0x20]"

text \<open>
  \<^verbatim>\<open>a || ""\<close> for \<open>a\<close> a string or \<^verbatim>\<open>undefined\<close>: the right operand is taken when \<open>a\<close> is
  falsy, that is \<^verbatim>\<open>undefined\<close> or the empty string. \<open>lastOccurrenceDate\<close> is
  \<^verbatim>\<open>entries[lastIndex]?.date || ""\<close>.
\<close>

definition falsy :: "string option \<Rightarrow> bool" where
  "falsy a = (case a of None \<Rightarrow> True | Some s \<Rightarrow> s = [])"

definition or_else :: "string option \<Rightarrow> string \<Rightarrow> string" where
  "or_else a b = (case a of None \<Rightarrow> b | Some s \<Rightarrow> if s = [] then b else s)"

definition lastOccurrenceDate :: "daily_entry list \<Rightarrow> int \<Rightarrow> string" where
  "lastOccurrenceDate entries lastIndex =
     or_else (map_option date (array_get entries lastIndex)) []"

text \<open>
  The loop of \<^verbatim>\<open>detectEmotionalCycles\<close>: \<open>triadAt\<close> is \<^verbatim>\<open>emotionSequence.slice(i, i + 3)\<close>,
  \<open>cycleAt\<close> the object pushed at index \<open>i\<close>, \<open>cycleStep\<close> the body. The division is by
  \<^verbatim>\<open>entries.length\<close>, which is at least 3 wherever the body runs.
\<close>

definition triadAt :: "string list \<Rightarrow> nat \<Rightarrow> string list" where
  "triadAt emotionSequence i = slice emotionSequence (int i) (int i + 3)"

definition cycleAt :: "daily_entry list \<Rightarrow> nat \<Rightarrow> cycle" where
  "cycleAt entries i =
     (let emotionSequence = map emotionTag entries;
          occurrences = countPatternOccurrences emotionSequence (triadAt emotionSequence i);
          lastIndex = findLastOccurrenceIndex emotionSequence (triadAt emotionSequence i)
      in \<lparr>pattern = join arrow (triadAt emotionSequence i),
          frequency = occurrences,
          lastOccurrence = lastOccurrenceDate entries lastIndex,
          confidence = Math_min (js_mul (js_div (js_nat occurrences) (js_nat (length entries)))
                                         (Num 100)) (Num 95)\<rparr>)"

definition cycleStep :: "daily_entry list \<Rightarrow> nat \<Rightarrow> cycle list \<Rightarrow> cycle list" where
  "cycleStep entries i cycles =
     (let emotionSequence = map emotionTag entries;
          occurrences = countPatternOccurrences emotionSequence (triadAt emotionSequence i)
      in if occurrences > 1 then cycles @ [cycleAt entries i] else cycles)"

text \<open>The tally \<^verbatim>\<open>emotionCounts\<close> of the source is never read and is left out.\<close>

definition detectEmotionalCycles :: "daily_entry list \<Rightarrow> cycle list" where
  "detectEmotionalCycles entries =
     slice (fold (cycleStep entries) [0..<length entries - 2] []) 0 5"

text \<open>
  The callback of \<^verbatim>\<open>categories.forEach\<close> in \<^verbatim>\<open>analyzeCategoryTrends\<close>: \<open>trendOf\<close> is the
  object it pushes, or nothing when it returns early on a \<^verbatim>\<open>null\<close> average.
\<close>

definition trendOf :: "daily_entry list \<Rightarrow> daily_entry list \<Rightarrow> string \<Rightarrow> category_trend option" where
  "trendOf recent older cat =
     (case calculateCategoryAverage recent cat of
        None \<Rightarrow> None
      | Some recentAvg \<Rightarrow>
          (case calculateCategoryAverage older cat of
             None \<Rightarrow> None
           | Some olderAvg \<Rightarrow>
               (let chg = js_mul (js_div (js_sub recentAvg olderAvg) olderAvg) (Num 100);
                    tr = (if js_gt chg (Num 10) then ''improving''
                          else if js_lt chg (Num (- 10)) then ''declining''
                          else ''stable'')
                in Some \<lparr>category = cat, trend = tr, change = Math_round chg\<rparr>)))"

definition trendStep ::
  "daily_entry list \<Rightarrow> daily_entry list \<Rightarrow> string \<Rightarrow> category_trend list \<Rightarrow> category_trend list"
where
  "trendStep recent older cat trends =
     (case trendOf recent older cat of None \<Rightarrow> trends | Some t \<Rightarrow> trends @ [t])"

definition categoryKeys :: "daily_entry list \<Rightarrow> string list" where
  "categoryKeys entries =
     fold (\<lambda>e s. fold (\<lambda>k s. set_add s k) (Object_keys (categories e)) s) entries []"

definition analyzeCategoryTrends :: "daily_entry list \<Rightarrow> category_trend list" where
  "analyzeCategoryTrends entries =
     (if length entries < 7 then []
      else
        let recent = slice_from entries (- 7);
            older = slice entries (- 14) (- 7)
        in fold (trendStep recent older) (categoryKeys entries) [])"

definition thoughtKeys :: "daily_entry list \<Rightarrow> string list" where
  "thoughtKeys entries =
     fold (\<lambda>e s. fold (\<lambda>k s. set_add s k) (Object_keys (thoughts e)) s) entries []"

text \<open>
  The literal \<^verbatim>\<open>0.3\<close> denotes the binary64 value nearest to \<open>3/10\<close>, and \<^verbatim>\<open>-0.3\<close> its
  negation.
\<close>

definition thoughtAt :: "daily_entry list \<Rightarrow> string \<Rightarrow> thought_pattern" where
  "thoughtAt entries th =
     (let corr = calculateThoughtImpact entries th;
          imp = (if js_gt corr (fl (3 / 10)) then ''positive''
                 else if js_lt corr (js_neg (fl (3 / 10))) then ''negative''
                 else ''neutral'')
      in \<lparr>thought = th,
          correlation = js_div (Math_round (js_mul corr (Num 100))) (Num 100),
          impact = imp\<rparr>)"

definition thoughtStep :: "daily_entry list \<Rightarrow> string \<Rightarrow> thought_pattern list \<Rightarrow> thought_pattern list" where
  "thoughtStep entries th acc = acc @ [thoughtAt entries th]"

definition analyzeThoughtPatterns :: "daily_entry list \<Rightarrow> thought_pattern list" where
  "analyzeThoughtPatterns entries =
     slice (fold (thoughtStep entries) (thoughtKeys entries) []) 0 5"

definition hasCompleteData :: "daily_entry \<Rightarrow> bool" where
  "hasCompleteData e =
     (length (Object_keys (categories e)) \<ge> 3 \<and> length (Object_keys (thoughts e)) \<ge> 2
      \<and> length (journalEntry e) > 20)"

text \<open>
  The readiness score is computed on exact rationals and rounded once by \<^verbatim>\<open>Math.round\<close>;
  what is proved of it below are bounds and monotonicity.
\<close>

definition calculateReadinessScore :: "daily_entry list \<Rightarrow> int" where
  "calculateReadinessScore entries =
     (if length entries < 7 then min (int (length entries) * 14) 100
      else
        let consistency = (if length entries \<ge> 7 then 40
                           else of_nat (length entries) / 7 * 40) :: rat;
            score1 = 0 + consistency;
            complete = length (filter hasCompleteData entries);
            score2 = score1 + of_nat complete / of_nat (length entries) * 30;
            emotionalVariety = length (new_Set (map emotionTag entries));
            identityVariety = length (new_Set (map identityTag entries));
            score3 = score2 + of_nat (min ((emotionalVariety + identityVariety) * 3) 30)
        in round score3)"

definition generateInsights ::
  "daily_entry list \<Rightarrow> cycle list \<Rightarrow> category_trend list \<Rightarrow> string list"
where
  "generateInsights entries cycles trends =
     (let i1 = (if length entries \<ge> 7
                then [''You've established a consistent awareness tracking practice'']
                else []);
          i2 = (if length cycles > 0
                then i1 @ [''Detected '' @ string_of_nat (length cycles) @
                           '' recurring emotional patterns - you're developing pattern recognition'']
                else i1);
          improvingTrends = filter (\<lambda>t. trend t = ''improving'') trends;
          i3 = (if length improvingTrends > 0
                then i2 @ [string_of_nat (length improvingTrends) @
                           '' life areas are improving - your awareness is creating positive shifts'']
                else i2);
          recentEntries = slice_from entries (- 3);
          avgMood = js_div (foldl (\<lambda>s e. js_add s (moodScore (emotionTag e))) (Num 0) recentEntries)
                      (js_nat (length recentEntries))
      in if js_ge avgMood (Num 3)
         then i3 @ [''Your recent emotional state shows elevated awareness - you're entering a higher frequency'']
         else i3)"

text \<open>
  \<^verbatim>\<open>analyzePatterns\<close> reaches the analyzers through \<^verbatim>\<open>this\<close>; \<open>analyzePatternsWith\<close> takes
  them as arguments, and \<open>analyzePatterns\<close> is the method of the class itself.
\<close>

definition analyzePatternsWith ::
  "(daily_entry list \<Rightarrow> cycle list) \<Rightarrow> (daily_entry list \<Rightarrow> category_trend list) \<Rightarrow>
   (daily_entry list \<Rightarrow> thought_pattern list) \<Rightarrow> (daily_entry list \<Rightarrow> int) \<Rightarrow>
   (daily_entry list \<Rightarrow> cycle list \<Rightarrow> category_trend list \<Rightarrow> string list) \<Rightarrow>
   daily_entry list \<Rightarrow> pattern_result"
where
  "analyzePatternsWith detect trends_of thoughts_of readiness insights_of entries =
     (if length entries < 5 then
        \<lparr>emotionalCycles = [], categoryTrends = [], thoughtPatterns = [], readinessScore = 0,
         insights = [''Keep tracking daily to unlock pattern insights'']\<rparr>
      else
        let cycles = detect entries;
            trends = trends_of entries;
            tps = thoughts_of entries;
            score = readiness entries;
            ins = insights_of entries cycles trends
        in \<lparr>emotionalCycles = cycles, categoryTrends = trends, thoughtPatterns = tps,
            readinessScore = score, insights = ins\<rparr>)"

definition analyzePatterns :: "daily_entry list \<Rightarrow> pattern_result" where
  "analyzePatterns =
     analyzePatternsWith detectEmotionalCycles analyzeCategoryTrends analyzeThoughtPatterns
       calculateReadinessScore generateInsights"

section \<open>Progression\<close>

definition isCoherent :: "daily_entry \<Rightarrow> bool" where
  "isCoherent e =
     (let categoryAvg = js_div (reduce_add (Object_values (categories e)))
                          (js_nat (length (Object_keys (categories e))));
          thoughtAvg = js_div (reduce_add (Object_values (thoughts e)))
                         (js_nat (length (Object_keys (thoughts e))))
      in (js_ge categoryAvg (Num 6) \<and> js_ge thoughtAvg (Num 6))
         \<or> (js_ge categoryAvg (Num 7) \<and> js_ge thoughtAvg (Num 7)))"

definition calculateCoherenceDays :: "daily_entry list \<Rightarrow> int" where
  "calculateCoherenceDays entries =
     fold (\<lambda>e coherentDays. if isCoherent e then coherentDays + 1 else coherentDays) entries 0"

definition calculateAchievements :: "int \<Rightarrow> int \<Rightarrow> int \<Rightarrow> string list" where
  "calculateAchievements entries patterns coherence =
     (if entries \<ge> 7 then [''Observer Foundation''] else []) @
     (if entries \<ge> 21 then [''Pattern Seeker''] else []) @
     (if entries \<ge> 50 then [''Reality Tracker''] else []) @
     (if entries \<ge> 100 then [''Consciousness Master''] else []) @
     (if patterns \<ge> 3 then [''Pattern Detector''] else []) @
     (if patterns \<ge> 10 then [''Loop Breaker''] else []) @
     (if coherence \<ge> 7 then [''Frequency Aligner''] else []) @
     (if coherence \<ge> 21 then [''Timeline Shifter''] else [])"

definition requirements :: "int \<Rightarrow> requirement option" where
  "requirements lvl =
     (if lvl = 1 then
        Some \<lparr>req_entries = 7, req_patterns = 0, req_coherence = 0,
              req_tasks = [''Complete 7 daily awareness entries'',
                           ''Track all required life categories'']\<rparr>
      else if lvl = 2 then
        Some \<lparr>req_entries = 21, req_patterns = 3, req_coherence = 0,
              req_tasks = [''Identify 3 recurring patterns'', ''Maintain consistent tracking'']\<rparr>
      else if lvl = 3 then
        Some \<lparr>req_entries = 50, req_patterns = 10, req_coherence = 7,
              req_tasks = [''Break old patterns'', ''Achieve 7 coherent days'']\<rparr>
      else if lvl = 4 then
        Some \<lparr>req_entries = 100, req_patterns = 15, req_coherence = 21,
              req_tasks = [''Master frequency alignment'', ''Sustain 21 coherent days'']\<rparr>
      else None)"

text \<open>\<^verbatim>\<open>requirements[nextLevel] || requirements[4]\<close>; the entry for level 4 exists.\<close>

definition getNextLevelRequirements :: "int \<Rightarrow> int \<Rightarrow> int \<Rightarrow> int \<Rightarrow> next_level" where
  "getNextLevelRequirements level entries patterns coherence =
     (let nextLevel = min (level + 1) 5;
          req = (case requirements nextLevel of
                   Some r \<Rightarrow> r
                 | None \<Rightarrow> \<lparr>req_entries = 100, req_patterns = 15, req_coherence = 21,
                             req_tasks = [''Master frequency alignment'',
                                          ''Sustain 21 coherent days'']\<rparr>)
      in \<lparr>entriesNeeded = max 0 (req_entries req - entries),
          patternsNeeded = max 0 (req_patterns req - patterns),
          coherenceNeeded = max 0 (req_coherence req - coherence),
          specificTasks = req_tasks req\<rparr>)"

definition calculateLevelProgress :: "daily_entry list \<Rightarrow> int \<Rightarrow> level_progress" where
  "calculateLevelProgress entries level =
     (let completed = int (length entries);
          patterns = analyzePatterns entries;
          identified = int (length (emotionalCycles patterns)) + int (length (categoryTrends patterns));
          coherence = calculateCoherenceDays entries
      in \<lparr>currentLevel = level, entriesCompleted = completed, patternsIdentified = identified,
          coherenceDays = coherence,
          achievements = calculateAchievements completed identified coherence,
          nextLevelRequirements = getNextLevelRequirements level completed identified coherence\<rparr>)"

section \<open>Sample records\<close>

text \<open>Concrete record sequences on which the analyzers are evaluated below.\<close>

definition dayString :: "nat \<Rightarrow> string" where
  "dayString i = ''2024-01-'' @ (if i < 10 then ''0'' else []) @ string_of_nat i"

definition sampleEntry :: "string \<Rightarrow> string \<Rightarrow> scores \<Rightarrow> scores \<Rightarrow> daily_entry" where
  "sampleEntry d tag cats ths =
     \<lparr>date = d, categories = cats, thoughts = ths, emotionTag = tag,
      identityTag = ''observer'', journalEntry = []\<rparr>"

definition taggedDays :: "string list \<Rightarrow> daily_entry list" where
  "taggedDays tags = map (\<lambda>(i, tag). sampleEntry (dayString (Suc i)) tag [] []) (enumerate 0 tags)"

definition completeEntry :: "string \<Rightarrow> string \<Rightarrow> string \<Rightarrow> daily_entry" where
  "completeEntry d tag ident =
     \<lparr>date = d, categories = [(''work'', Num 6), (''health'', Num 7), (''relationships'', Num 8)],
      thoughts = [(''clarity'', Num 6), (''focus'', Num 7)], emotionTag = tag,
      identityTag = ident, journalEntry = ''Observed the day with calm attention''\<rparr>"

definition sparseWeek :: "daily_entry list" where
  "sparseWeek = taggedDays (replicate 7 ''low'')"

definition completeWeek :: "daily_entry list" where
  "completeWeek =
     map (\<lambda>(i, tag). completeEntry (dayString (Suc i)) tag ''observer'')
       (enumerate 0 [''low'', ''neutral'', ''elevated'', ''low'', ''neutral'', ''elevated'', ''peak''])"

definition repeatingWeek :: "daily_entry list" where
  "repeatingWeek =
     taggedDays [''low'', ''neutral'', ''elevated'', ''low'', ''neutral'', ''elevated'', ''peak'']"


definition thoughtWeek :: "daily_entry list" where
  "thoughtWeek =
     map (\<lambda>(i, tag, v). sampleEntry (dayString (Suc i)) tag [] [(''clarity'', Num v)])
       (enumerate 0 [(''low'', 1), (''neutral'', 3), (''elevated'', 5), (''high'', 7), (''peak'', 9)])"

definition healthFortnight :: "daily_entry list" where
  "healthFortnight =
     map (\<lambda>(i, v). sampleEntry (dayString (Suc i)) ''neutral'' [(''health'', Num v)] [])
       (enumerate 0 (replicate 7 5 @ replicate 7 8))"

definition constructorFortnight :: "daily_entry list" where
  "constructorFortnight =
     map (\<lambda>(i, cats). sampleEntry (dayString (Suc i)) ''neutral'' cats [])
       (enumerate 0 (replicate 7 [(''health'', Num 5)] @ replicate 6 [(''health'', Num 8)] @
                     [[(''health'', Num 8), (''constructor'', Num 7)]]))"

definition toStringFortnight :: "daily_entry list" where
  "toStringFortnight =
     map (\<lambda>(i, cats). sampleEntry (dayString (Suc i)) ''neutral'' cats [])
       (enumerate 0 (replicate 13 [] @ [[(''toString'', Num 5)]]))"

definition bareWeek :: "daily_entry list" where
  "bareWeek = taggedDays [''low'', ''neutral'', ''elevated'', ''high'', ''peak'']"

definition sparseThoughts :: "daily_entry list" where
  "sparseThoughts =
     map (\<lambda>(i, tag, ths). sampleEntry (dayString (Suc i)) tag [] ths)
       (enumerate 0 [(''low'', [(''focus'', Num 2)]), (''neutral'', []), (''elevated'', []),
                     (''high'', []), (''peak'', [(''focus'', Num 9)])])"

section \<open>Notions of the specification\<close>


definition windowAt :: "'a list \<Rightarrow> nat \<Rightarrow> 'a list" where
  "windowAt xs i = take 3 (drop i xs)"


text \<open>
  For a thought label: the contributing records are those where the label is present, that
  is, is an own key of the thoughts mapping; the co-movements are the products
  \<open>(thoughtValue - thoughtMean) * (moodValue - moodMean)\<close> over them, a mean being the sum
  from the left divided by the count, all in the arithmetic of the program.
  \<open>claimedAssociation\<close> is the statistic as the specification words it: the mean of the
  products, divided again by the count and by 10, rounded to 2 decimal places.
\<close>

definition js_mean :: "jsnum list \<Rightarrow> jsnum" where
  "js_mean xs = js_div (reduce_add xs) (js_nat (length xs))"

definition round2 :: "jsnum \<Rightarrow> jsnum" where
  "round2 x = js_div (Math_round (js_mul x (Num 100))) (Num 100)"

definition contributing :: "daily_entry list \<Rightarrow> string \<Rightarrow> daily_entry list" where
  "contributing entries th = filter (\<lambda>e. map_of (thoughts e) th \<noteq> None) entries"

definition thoughtValue :: "daily_entry \<Rightarrow> string \<Rightarrow> jsnum" where
  "thoughtValue e th = (case map_of (thoughts e) th of Some v \<Rightarrow> v | None \<Rightarrow> NaN)"

definition coMovements :: "daily_entry list \<Rightarrow> string \<Rightarrow> jsnum list" where
  "coMovements entries th =
     (let rs = contributing entries th;
          thoughtMean = js_mean (map (\<lambda>e. thoughtValue e th) rs);
          moodMean = js_mean (map (\<lambda>e. moodScore (emotionTag e)) rs)
      in map (\<lambda>e. js_mul (js_sub (thoughtValue e th) thoughtMean)
                          (js_sub (moodScore (emotionTag e)) moodMean)) rs)"

definition claimedAssociation :: "daily_entry list \<Rightarrow> string \<Rightarrow> jsnum" where
  "claimedAssociation entries th =
     round2 (js_div (js_div (js_mean (coMovements entries th))
                        (js_nat (length (contributing entries th)))) (Num 10))"

text \<open>
  For a category: the two windows by position from the end and the scores of the records of
  a window that contain the category as an own key.
\<close>

definition lastSeven :: "'a list \<Rightarrow> 'a list" where
  "lastSeven xs = rev (take 7 (rev xs))"

definition previousSeven :: "'a list \<Rightarrow> 'a list" where
  "previousSeven xs = rev (take 7 (drop 7 (rev xs)))"

definition categoryValues :: "daily_entry list \<Rightarrow> string \<Rightarrow> jsnum list" where
  "categoryValues window cat = List.map_filter (\<lambda>e. map_of (categories e) cat) window"

section \<open>Basic facts about the helpers\<close>

lemma fold_snoc_if:
  "fold (\<lambda>x acc. if P x then acc @ [f x] else acc) xs acc = acc @ map f (filter P xs)"
  by (induction xs arbitrary: acc) auto


lemma fold_count_if_int:
  "fold (\<lambda>x (c::int). if P x then c + 1 else c) xs c = c + int (length (filter P xs))"
  by (induction xs arbitrary: c) auto

lemma slice_prefix: "slice xs 0 (int k) = take k xs"
  by (simp add: slice_def rel_index_def Let_def min_def)

lemma slice_window:
  "i + k \<le> length xs \<Longrightarrow> slice xs (int i) (int i + int k) = take k (drop i xs)"
  by (simp add: slice_def rel_index_def Let_def min_def nat_add_distrib)

lemma slice_from_last:
  "0 < k \<Longrightarrow> slice_from xs (- int k) = drop (length xs - k) xs"
  by (auto simp: slice_from_def rel_index_def max_def nat_diff_distrib')

lemma rel_index_neg: "0 < k \<Longrightarrow> rel_index n (- int k) = n - k"
  by (auto simp: rel_index_def max_def nat_diff_distrib')

lemma slice_older:
  assumes "0 < k" "k \<le> m"
  shows "slice xs (- int m) (- int k) = rev (take (m - k) (drop k (rev xs)))"
proof -
  let ?n = "length xs"
  have "rev (take (m - k) (drop k (rev xs))) = drop ((?n - k) - (m - k)) (take (?n - k) xs)"
    by (simp add: rev_take rev_drop)
  also have "\<dots> = take ((?n - k) - ((?n - k) - (m - k))) (drop ((?n - k) - (m - k)) xs)"
    by (simp add: drop_take)
  also have "(?n - k) - (m - k) = ?n - m"
    using assms by simp
  finally show ?thesis
    using assms by (simp add: slice_def Let_def rel_index_neg)
qed

lemma set_add_fold_set: "set (fold (\<lambda>x s. set_add s x) xs s) = set s \<union> set xs"
  by (induction xs arbitrary: s) (auto simp: set_add_def)

lemma set_add_fold_distinct: "distinct s \<Longrightarrow> distinct (fold (\<lambda>x s. set_add s x) xs s)"
  by (induction xs arbitrary: s) (auto simp: set_add_def)

lemma set_new_Set: "set (new_Set xs) = set xs"
  by (simp add: new_Set_def set_add_fold_set)

lemma distinct_new_Set: "distinct (new_Set xs)"
  by (simp add: new_Set_def set_add_fold_distinct)

lemma length_new_Set: "length (new_Set xs) = card (set xs)"
  using distinct_card [OF distinct_new_Set, of xs] by (simp add: set_new_Set)



section \<open>Progression calculator at the first threshold\<close>

text \<open>
  C5. With 7 entries completed, no pattern identified, no coherence day and current level 1,
  the achievements are exactly \<open>[Observer Foundation]\<close>; the target level is
  \<open>min (1 + 1) 5 = 2\<close>, and the next-level requirements are 14 entries, 3 patterns and 0
  coherence days, each being \<open>max 0 (required - actual)\<close> for the level-2 row of the table.
\<close>

theorem progression_at_seven_entries:
  "calculateAchievements 7 0 0 = [''Observer Foundation'']
   \<and> min ((1::int) + 1) 5 = 2
   \<and> entriesNeeded (getNextLevelRequirements 1 7 0 0) = 14
   \<and> patternsNeeded (getNextLevelRequirements 1 7 0 0) = 3
   \<and> coherenceNeeded (getNextLevelRequirements 1 7 0 0) = 0
   \<and> specificTasks (getNextLevelRequirements 1 7 0 0) =
       [''Identify 3 recurring patterns'', ''Maintain consistent tracking'']"
  by (simp add: calculateAchievements_def getNextLevelRequirements_def requirements_def)

section \<open>The five-record gate\<close>

text \<open>
  C1. For every sequence of fewer than 5 records, \<open>analyzePatterns\<close> returns empty cycle,
  trend and thought lists, readiness score 0 and exactly one insight string, the
  keep-tracking one. No analyzer is invoked: the result is the same whatever functions
  stand for the cycle detector, the trend analyzer, the correlation analyzer, the readiness
  scorer and the insight generator.
\<close>

theorem analyzePatterns_below_five:
  "length entries < 5 \<Longrightarrow>
     analyzePatterns entries =
       \<lparr>emotionalCycles = [], categoryTrends = [], thoughtPatterns = [], readinessScore = 0,
        insights = [''Keep tracking daily to unlock pattern insights'']\<rparr>
     \<and> length (insights (analyzePatterns entries)) = 1
     \<and> (\<forall>detect trends_of thoughts_of readiness insights_of.
           analyzePatternsWith detect trends_of thoughts_of readiness insights_of entries =
             analyzePatterns entries)"
  by (simp add: analyzePatterns_def analyzePatternsWith_def)

theorem analyzePatterns_below_five_witness:
  "length (taggedDays [''low'', ''neutral'', ''low'', ''peak'']) < 5
   \<and> emotionalCycles (analyzePatterns (taggedDays [''low'', ''neutral'', ''low'', ''peak''])) = []
   \<and> readinessScore (analyzePatterns (taggedDays [''low'', ''neutral'', ''low'', ''peak''])) = 0
   \<and> insights (analyzePatterns (taggedDays [''low'', ''neutral'', ''low'', ''peak''])) =
       [''Keep tracking daily to unlock pattern insights'']"
  using analyzePatterns_below_five [of "taggedDays [''low'', ''neutral'', ''low'', ''peak'']"]
  by (simp add: taggedDays_def)

section \<open>Readiness score\<close>

text \<open>
  C7. For every sequence of exactly 5 or 6 records the readiness score is
  \<open>min (count * 14) 100\<close>, that is 70 for 5 records and 84 for 6, also as returned by
  \<open>analyzePatterns\<close>. The composite formula is not applied: the score is the same for every
  sequence of that length, whatever its completeness and variety.
\<close>

theorem readiness_five_or_six:
  "length entries = 5 \<or> length entries = 6 \<Longrightarrow>
     calculateReadinessScore entries = min (int (length entries) * 14) 100
     \<and> calculateReadinessScore entries = (if length entries = 5 then 70 else 84)
     \<and> readinessScore (analyzePatterns entries) = calculateReadinessScore entries
     \<and> (\<forall>others. length others = length entries \<longrightarrow>
           calculateReadinessScore others = calculateReadinessScore entries)"
  by (auto simp: calculateReadinessScore_def analyzePatterns_def analyzePatternsWith_def Let_def)

theorem readiness_five_or_six_witness:
  "(length (taggedDays (replicate 5 ''low'')) = 5 \<or> length (taggedDays (replicate 5 ''low'')) = 6)
   \<and> calculateReadinessScore (taggedDays (replicate 5 ''low'')) = 70"
  using readiness_five_or_six [of "taggedDays (replicate 5 ''low'')"]
  by (simp add: taggedDays_def)

lemma completeness_fraction:
  fixes c n :: nat
  assumes "c \<le> n" "0 < n"
  shows "(0::rat) \<le> of_nat c / of_nat n * 30" and "(of_nat c :: rat) / of_nat n * 30 \<le> 30"
proof -
  show "(0::rat) \<le> of_nat c / of_nat n * 30" by simp
  have "(of_nat c :: rat) \<le> of_nat n" using assms(1) by (simp only: of_nat_le_iff)
  then have "(of_nat c :: rat) / of_nat n \<le> 1" using assms(2) by (simp add: divide_le_eq_1)
  then have "(of_nat c :: rat) / of_nat n * 30 \<le> 1 * 30"
    by (rule mult_right_mono) simp
  then show "(of_nat c :: rat) / of_nat n * 30 \<le> 30" by simp
qed

lemma score_ge_46:
  fixes x w :: rat
  assumes "0 \<le> x" "6 \<le> w"
  shows "of_int 46 \<le> 0 + 40 + x + w"
  using assms by simp

lemma score_le_100:
  fixes x w :: rat
  assumes "x \<le> 30" "w \<le> 30"
  shows "0 + 40 + x + w \<le> of_int 100"
  using assms by simp

lemma variety_points:
  fixes v :: nat
  shows "(of_nat (min (v * 3) 30) :: rat) \<le> 30"
    and "2 \<le> v \<Longrightarrow> (6::rat) \<le> of_nat (min (v * 3) 30)"
proof -
  have "min (v * 3) 30 \<le> 30" by simp
  then show "(of_nat (min (v * 3) 30) :: rat) \<le> 30"
    by (metis of_nat_le_iff of_nat_numeral)
  assume "2 \<le> v"
  then have "6 \<le> min (v * 3) 30" by simp
  then show "(6::rat) \<le> of_nat (min (v * 3) 30)"
    by (metis of_nat_le_iff of_nat_numeral)
qed

lemma readiness_composite:
  "7 \<le> length entries \<Longrightarrow>
     calculateReadinessScore entries =
       round (0 + 40 + of_nat (length (filter hasCompleteData entries)) / of_nat (length entries) * 30
          + of_nat (min ((card (set (map emotionTag entries)) + card (set (map identityTag entries))) * 3) 30) :: rat)"
  by (simp add: calculateReadinessScore_def Let_def length_new_Set)

lemma variety_ge_two:
  fixes entries :: "daily_entry list"
  assumes "entries \<noteq> []"
  shows "2 \<le> card (set (map emotionTag entries)) + card (set (map identityTag entries))"
proof -
  have "0 < card (set (map f entries))" for f :: "daily_entry \<Rightarrow> string"
    using assms by (simp add: card_gt_0_iff)
  from this [of emotionTag] this [of identityTag] show ?thesis by linarith
qed

lemma readiness_lower:
  fixes entries :: "daily_entry list"
  assumes "7 \<le> length entries"
  shows "46 \<le> calculateReadinessScore entries"
proof -
  let ?n = "length entries"
  let ?c = "length (filter hasCompleteData entries)"
  let ?v = "card (set (map emotionTag entries)) + card (set (map identityTag entries))"
  from assms have ne: "entries \<noteq> []" by auto
  have "(of_int 46 :: rat) \<le> 0 + 40 + of_nat ?c / of_nat ?n * 30 + of_nat (min (?v * 3) 30)"
    by (rule score_ge_46 [OF completeness_fraction(1) variety_points(2) [OF variety_ge_two [OF ne]]])
      (use assms in auto)
  then have "round (of_int 46 :: rat) \<le> round (0 + 40 + of_nat ?c / of_nat ?n * 30 + of_nat (min (?v * 3) 30) :: rat)"
    by (rule round_mono)
  then show ?thesis
    by (simp only: readiness_composite [OF assms] round_of_int)
qed

lemma readiness_upper: "calculateReadinessScore entries \<le> 100"
proof (cases "length entries < 7")
  case True
  then show ?thesis by (simp add: calculateReadinessScore_def)
next
  case False
  then have n: "7 \<le> length entries" by simp
  let ?n = "length entries"
  let ?c = "length (filter hasCompleteData entries)"
  let ?v = "card (set (map emotionTag entries)) + card (set (map identityTag entries))"
  have "0 + 40 + of_nat ?c / of_nat ?n * 30 + of_nat (min (?v * 3) 30) \<le> (of_int 100 :: rat)"
    by (rule score_le_100 [OF completeness_fraction(2) variety_points(1)])
      (use n in auto)
  then have "round (0 + 40 + of_nat ?c / of_nat ?n * 30 + of_nat (min (?v * 3) 30) :: rat) \<le> round (of_int 100 :: rat)"
    by (rule round_mono)
  then show ?thesis
    by (simp only: readiness_composite [OF n] round_of_int)
qed

lemma readiness_nonneg: "0 \<le> calculateReadinessScore entries"
proof (cases "length entries < 7")
  case True
  then show ?thesis by (simp add: calculateReadinessScore_def)
next
  case False
  then show ?thesis using readiness_lower [of entries] by simp
qed

lemma score_mono:
  fixes c c' n v v' :: nat
  assumes "c \<le> c'" "v \<le> v'"
  shows "0 + 40 + of_nat c / of_nat n * 30 + of_nat (min (v * 3) 30)
         \<le> (0 + 40 + of_nat c' / of_nat n * 30 + of_nat (min (v' * 3) 30) :: rat)"
proof -
  have "(of_nat c :: rat) \<le> of_nat c'" using assms(1) by (simp only: of_nat_le_iff)
  then have "(of_nat c :: rat) / of_nat n \<le> of_nat c' / of_nat n"
    by (rule divide_right_mono) simp
  then have a: "(of_nat c :: rat) / of_nat n * 30 \<le> of_nat c' / of_nat n * 30"
    by (rule mult_right_mono) simp
  have "min (v * 3) 30 \<le> min (v' * 3) 30" using assms(2) by simp
  then have b: "(of_nat (min (v * 3) 30) :: rat) \<le> of_nat (min (v' * 3) 30)"
    by (simp only: of_nat_le_iff)
  from a b show ?thesis by (rule add_mono [OF add_left_mono])
qed

lemma readiness_via_analyzePatterns:
  "readinessScore (analyzePatterns entries) =
     (if length entries < 5 then 0 else calculateReadinessScore entries)"
  by (simp add: analyzePatterns_def analyzePatternsWith_def Let_def)

text \<open>
  C6. For two record sequences of the same length, if the second has at least as many
  records meeting the completeness criterion (at least 3 category entries, at least 2
  thought entries, a journal entry longer than 20 characters) and at least as many distinct
  emotion tags plus distinct identity tags, its readiness score is at least that of the
  first. For every sequence the score lies within 0 and 100, also as returned by
  \<open>analyzePatterns\<close>.
\<close>

theorem readiness_monotone_and_bounded:
  fixes entries entries' :: "daily_entry list"
  assumes "length entries = length entries'"
    and "length (filter (\<lambda>e. length (Object_keys (categories e)) \<ge> 3
                          \<and> length (Object_keys (thoughts e)) \<ge> 2
                          \<and> length (journalEntry e) > 20) entries)
         \<le> length (filter (\<lambda>e. length (Object_keys (categories e)) \<ge> 3
                          \<and> length (Object_keys (thoughts e)) \<ge> 2
                          \<and> length (journalEntry e) > 20) entries')"
    and "card (set (map emotionTag entries)) + card (set (map identityTag entries))
         \<le> card (set (map emotionTag entries')) + card (set (map identityTag entries'))"
  shows "calculateReadinessScore entries \<le> calculateReadinessScore entries'
         \<and> 0 \<le> calculateReadinessScore entries \<and> calculateReadinessScore entries \<le> 100
         \<and> 0 \<le> readinessScore (analyzePatterns entries)
         \<and> readinessScore (analyzePatterns entries) \<le> 100"
proof -
  have mono: "calculateReadinessScore entries \<le> calculateReadinessScore entries'"
  proof (cases "length entries < 7")
    case True
    then show ?thesis using assms(1) by (simp add: calculateReadinessScore_def)
  next
    case False
    then have n: "7 \<le> length entries" and n': "7 \<le> length entries'"
      using assms(1) by simp_all
    have c: "length (filter hasCompleteData entries) \<le> length (filter hasCompleteData entries')"
      using assms(2) unfolding hasCompleteData_def .
    show ?thesis
      unfolding readiness_composite [OF n] readiness_composite [OF n']
      using score_mono [OF c assms(3), of "length entries"] assms(1)
      by (intro round_mono) simp
  qed
  show ?thesis
    using mono readiness_nonneg [of entries] readiness_upper [of entries]
    by (simp add: readiness_via_analyzePatterns)
qed

lemma sparseWeek_score: "calculateReadinessScore sparseWeek = 46"
  by code_simp

lemma completeWeek_score: "calculateReadinessScore completeWeek = 85"
  by code_simp

theorem readiness_monotone_and_bounded_witness:
  "length sparseWeek = length completeWeek
   \<and> calculateReadinessScore sparseWeek \<le> calculateReadinessScore completeWeek
   \<and> calculateReadinessScore sparseWeek = 46 \<and> calculateReadinessScore completeWeek = 85"
proof -
  have 1: "length sparseWeek = length completeWeek" by code_simp
  have 2: "length (filter (\<lambda>e. length (Object_keys (categories e)) \<ge> 3
                          \<and> length (Object_keys (thoughts e)) \<ge> 2
                          \<and> length (journalEntry e) > 20) sparseWeek)
         \<le> length (filter (\<lambda>e. length (Object_keys (categories e)) \<ge> 3
                          \<and> length (Object_keys (thoughts e)) \<ge> 2
                          \<and> length (journalEntry e) > 20) completeWeek)"
    by code_simp
  have 3: "card (set (map emotionTag sparseWeek)) + card (set (map identityTag sparseWeek))
         \<le> card (set (map emotionTag completeWeek)) + card (set (map identityTag completeWeek))"
    by code_simp
  show ?thesis
    using readiness_monotone_and_bounded [OF 1 2 3] 1 sparseWeek_score completeWeek_score
    by simp
qed

text \<open>
  C10. For every sequence of at least 7 records the readiness score is at least 46. Every
  sequence of 6 records scores 84, so the score is not monotone in the record count: the six
  sample records score 84, and with a seventh record appended they score 46.
\<close>

theorem readiness_floor_at_seven:
  fixes entries six :: "daily_entry list"
  assumes "7 \<le> length entries" and "length six = 6"
  shows "46 \<le> calculateReadinessScore entries
         \<and> calculateReadinessScore six = 84
         \<and> calculateReadinessScore (taggedDays (replicate 6 ''low'')) = 84
         \<and> calculateReadinessScore
              (taggedDays (replicate 6 ''low'') @ [sampleEntry (dayString 7) ''low'' [] []]) = 46"
proof -
  have "calculateReadinessScore six = 84"
    using assms(2) by (simp add: calculateReadinessScore_def)
  moreover have "calculateReadinessScore (taggedDays (replicate 6 ''low'')) = 84"
    by code_simp
  moreover have "calculateReadinessScore
      (taggedDays (replicate 6 ''low'') @ [sampleEntry (dayString 7) ''low'' [] []]) = 46"
    by code_simp
  ultimately show ?thesis using readiness_lower [OF assms(1)] by simp
qed

theorem readiness_floor_at_seven_witness:
  "7 \<le> length completeWeek \<and> length (taggedDays (replicate 6 ''low'')) = 6
   \<and> 46 \<le> calculateReadinessScore completeWeek"
proof -
  have 1: "7 \<le> length completeWeek" by code_simp
  have 2: "length (taggedDays (replicate 6 ''low'')) = 6" by code_simp
  show ?thesis
    using readiness_floor_at_seven [OF 1 2] 1 2 by simp
qed

section \<open>Cycle detector\<close>

lemma findLast_from_bounds:
  "window_matches sequence pat i \<Longrightarrow> i \<le> k \<Longrightarrow>
     int i \<le> findLast_from sequence pat k \<and> findLast_from sequence pat k \<le> int k"
proof (induction k)
  case 0
  then show ?case by simp
next
  case (Suc k)
  show ?case
  proof (cases "window_matches sequence pat (Suc k)")
    case True
    then show ?thesis using Suc.prems by simp
  next
    case False
    with Suc.prems have "i \<le> k" by (cases "i = Suc k") auto
    with Suc.IH Suc.prems(1) False show ?thesis by simp
  qed
qed

lemma triadAt_window: "i + 3 \<le> length xs \<Longrightarrow> triadAt xs i = windowAt xs i"
  using slice_window [of i 3 xs] by (simp add: triadAt_def windowAt_def)

lemma length_windowAt: "i + 3 \<le> length xs \<Longrightarrow> length (windowAt xs i) = 3"
  by (simp add: windowAt_def)

lemma window_matches_self:
  "i + 3 \<le> length xs \<Longrightarrow> window_matches xs (windowAt xs i) i"
  using slice_window [of i 3 xs]
  by (simp add: window_matches_def length_windowAt windowAt_def)

lemma findLastOccurrenceIndex_bounds:
  assumes "i + 3 \<le> length xs"
  shows "int i \<le> findLastOccurrenceIndex xs (triadAt xs i)"
    and "findLastOccurrenceIndex xs (triadAt xs i) \<le> int (length xs) - 3"
proof -
  have len: "length (windowAt xs i) = 3" using assms by (rule length_windowAt)
  have "i \<le> length xs - 3" using assms by simp
  from findLast_from_bounds [OF window_matches_self [OF assms] this]
  show "int i \<le> findLastOccurrenceIndex xs (triadAt xs i)"
    and "findLastOccurrenceIndex xs (triadAt xs i) \<le> int (length xs) - 3"
    using assms by (simp_all add: findLastOccurrenceIndex_def triadAt_window len)
qed

lemma fold_cycleStep:
  "fold (cycleStep entries) xs acc =
     acc @ map (cycleAt entries)
       (filter (\<lambda>i. 1 < countPatternOccurrences (map emotionTag entries)
                          (triadAt (map emotionTag entries) i)) xs)"
proof -
  have "cycleStep entries =
      (\<lambda>i acc. if 1 < countPatternOccurrences (map emotionTag entries)
                          (triadAt (map emotionTag entries) i)
                then acc @ [cycleAt entries i] else acc)"
    by (intro ext) (simp add: cycleStep_def Let_def)
  then show ?thesis by (simp only: fold_snoc_if)
qed

lemma detectEmotionalCycles_unfold:
  "detectEmotionalCycles entries =
     take 5 (map (cycleAt entries)
       (filter (\<lambda>i. 1 < countPatternOccurrences (map emotionTag entries)
                          (triadAt (map emotionTag entries) i)) [0..<length entries - 2]))"
  using slice_prefix [of _ 5]
  by (simp add: detectEmotionalCycles_def fold_cycleStep)

lemma lastOccurrence_cycleAt:
  fixes entries :: "daily_entry list"
  assumes "i + 3 \<le> length entries"
  shows "lastOccurrence (cycleAt entries i) =
           date (entries ! nat (findLastOccurrenceIndex (map emotionTag entries)
                                  (triadAt (map emotionTag entries) i)))"
    and "nat (findLastOccurrenceIndex (map emotionTag entries)
                (triadAt (map emotionTag entries) i)) < length entries"
proof -
  let ?j = "findLastOccurrenceIndex (map emotionTag entries) (triadAt (map emotionTag entries) i)"
  from findLastOccurrenceIndex_bounds [of i "map emotionTag entries"] assms
  have b: "int i \<le> ?j" "?j \<le> int (length entries) - 3" by simp_all
  then have g: "array_get entries ?j = Some (entries ! nat ?j)"
    by (simp add: array_get_def)
  show "lastOccurrence (cycleAt entries i) = date (entries ! nat ?j)"
    by (simp add: cycleAt_def Let_def lastOccurrenceDate_def g or_else_def)
  show "nat ?j < length entries" using b by linarith
qed

text \<open>
  C9. For every start index \<open>i\<close> of a triad (\<open>i + 3 \<le> n\<close>), so in particular whenever a cycle
  record is emitted at \<open>i\<close>, \<open>findLastOccurrenceIndex\<close> returns an index between \<open>i\<close> and
  \<open>n - 3\<close>; the lookup \<^verbatim>\<open>entries[lastIndex]\<close> succeeds, and the \<open>lastOccurrence\<close> of the record
  is the date of that input record. Every record returned by \<open>detectEmotionalCycles\<close> carries
  the date of an input record. The operand of \<^verbatim>\<open>||\<close> is never \<^verbatim>\<open>undefined\<close>, and it is not
  falsy when the record has a non-empty date, as calendar dates are.
\<close>

theorem last_occurrence_is_a_record_date:
  fixes entries :: "daily_entry list"
  assumes "i + 3 \<le> length entries"
  shows "(let lastIndex = findLastOccurrenceIndex (map emotionTag entries)
                            (triadAt (map emotionTag entries) i)
          in int i \<le> lastIndex \<and> lastIndex \<le> int (length entries) - 3
             \<and> array_get entries lastIndex = Some (entries ! nat lastIndex)
             \<and> entries ! nat lastIndex \<in> set entries
             \<and> lastOccurrenceDate entries lastIndex = date (entries ! nat lastIndex)
             \<and> lastOccurrence (cycleAt entries i) = date (entries ! nat lastIndex)
             \<and> (date (entries ! nat lastIndex) \<noteq> [] \<longrightarrow>
                  \<not> falsy (map_option date (array_get entries lastIndex))))
         \<and> (\<forall>c \<in> set (detectEmotionalCycles entries). lastOccurrence c \<in> date ` set entries)"
proof -
  let ?j = "findLastOccurrenceIndex (map emotionTag entries) (triadAt (map emotionTag entries) i)"
  from findLastOccurrenceIndex_bounds [of i "map emotionTag entries"] assms
  have b: "int i \<le> ?j" "?j \<le> int (length entries) - 3" by simp_all
  then have g: "array_get entries ?j = Some (entries ! nat ?j)"
    by (simp add: array_get_def)
  have m: "entries ! nat ?j \<in> set entries"
    using lastOccurrence_cycleAt(2) [OF assms] by (rule nth_mem)
  have d: "lastOccurrenceDate entries ?j = date (entries ! nat ?j)"
    by (simp add: lastOccurrenceDate_def g or_else_def)
  have f: "date (entries ! nat ?j) \<noteq> [] \<longrightarrow> \<not> falsy (map_option date (array_get entries ?j))"
    by (simp add: g falsy_def)
  have all: "\<forall>c \<in> set (detectEmotionalCycles entries). lastOccurrence c \<in> date ` set entries"
  proof
    fix c assume "c \<in> set (detectEmotionalCycles entries)"
    then have "c \<in> set (map (cycleAt entries) [0..<length entries - 2])"
      unfolding detectEmotionalCycles_unfold by (auto dest!: in_set_takeD)
    then obtain k where k: "k < length entries - 2" and c: "c = cycleAt entries k" by auto
    from k have k3: "k + 3 \<le> length entries" by simp
    show "lastOccurrence c \<in> date ` set entries"
      unfolding c lastOccurrence_cycleAt(1) [OF k3]
      using lastOccurrence_cycleAt(2) [OF k3] by (intro imageI nth_mem)
  qed
  show ?thesis
    unfolding Let_def
    using b g m d f all lastOccurrence_cycleAt(1) [OF assms] by simp
qed

theorem last_occurrence_is_a_record_date_witness:
  "0 + 3 \<le> length repeatingWeek
   \<and> findLastOccurrenceIndex (map emotionTag repeatingWeek)
        (triadAt (map emotionTag repeatingWeek) 0) = 3
   \<and> lastOccurrence (cycleAt repeatingWeek 0) = ''2024-01-04''
   \<and> map lastOccurrence (detectEmotionalCycles repeatingWeek) = [''2024-01-04'', ''2024-01-04'']"
proof -
  have 1: "0 + 3 \<le> length repeatingWeek" by code_simp
  have 2: "findLastOccurrenceIndex (map emotionTag repeatingWeek)
        (triadAt (map emotionTag repeatingWeek) 0) = 3" by code_simp
  have 3: "repeatingWeek ! 3 = sampleEntry ''2024-01-04'' ''low'' [] []" by code_simp
  have 4: "map lastOccurrence (detectEmotionalCycles repeatingWeek) = [''2024-01-04'', ''2024-01-04'']"
    by code_simp
  show ?thesis
    using last_occurrence_is_a_record_date [OF 1] 1 2 3 4
    by (simp add: Let_def sampleEntry_def)
qed












section \<open>Property reads, sums and label sets\<close>

lemma get_property_own:
  "key \<notin> set objectPrototypeNames \<Longrightarrow> get_property m key = map_option Number (map_of m key)"
  by (simp add: get_property_def split: option.splits)

lemma foldl_js_plus_Number:
  "foldl js_plus (Number a) (map Number xs) = Number (foldl js_add a xs)"
  by (induction xs arbitrary: a) simp_all

lemma reduce_plus_Number: "reduce_plus (map Number xs) = Number (reduce_add xs)"
  by (simp add: reduce_plus_def reduce_add_def foldl_js_plus_Number)

lemma mean_of_numbers:
  "js_div (to_number (reduce_plus (map Number xs))) (js_nat (length xs)) = js_mean xs"
  by (simp add: reduce_plus_Number js_mean_def)

lemma fold_js_add:
  "fold (\<lambda>i c. js_add c (h i)) xs c = foldl js_add c (map h xs)"
  by (induction xs arbitrary: c) simp_all

lemma label_fold_set:
  "set (fold (\<lambda>e s. fold (\<lambda>k s. set_add s k) (K e) s) entries s0) =
     set s0 \<union> (\<Union>e \<in> set entries. set (K e))"
  by (induction entries arbitrary: s0) (auto simp: set_add_fold_set)

lemma label_fold_distinct:
  "distinct s0 \<Longrightarrow> distinct (fold (\<lambda>e s. fold (\<lambda>k s. set_add s k) (K e) s) entries s0)"
  by (induction entries arbitrary: s0) (auto simp: set_add_fold_distinct)

lemma set_categoryKeys:
  "set (categoryKeys entries) = (\<Union>e \<in> set entries. set (Object_keys (categories e)))"
  by (simp add: categoryKeys_def label_fold_set)

lemma distinct_categoryKeys: "distinct (categoryKeys entries)"
  by (simp add: categoryKeys_def label_fold_distinct)

lemma set_thoughtKeys:
  "set (thoughtKeys entries) = (\<Union>e \<in> set entries. set (Object_keys (thoughts e)))"
  by (simp add: thoughtKeys_def label_fold_set)

lemma zero_times_hundred: "js_div (Math_round (js_mul (Num 0) (Num 100))) (Num 100) = Num 0"
  by (simp add: js_mul_def js_div_def signed_zero_def)

lemma literal_three_tenths: "fl (3 / 10) = Num (5404319552844595 / 18014398509481984)"
  by code_simp

lemma zero_is_neutral:
  "\<not> js_gt (Num 0) (fl (3 / 10))" "\<not> js_lt (Num 0) (js_neg (fl (3 / 10)))"
  by (simp_all add: literal_three_tenths js_gt_def js_lt_def)

section \<open>Correlation analyzer\<close>

lemma thoughtMoodPairs_fold:
  assumes "th \<notin> set objectPrototypeNames"
  shows "fold (\<lambda>e ps. case get_property (thoughts e) th of
                   None \<Rightarrow> ps
                 | Some v \<Rightarrow> ps @ [(v, moodScore (emotionTag e))]) entries acc =
     acc @ map (\<lambda>e. (Number (thoughtValue e th), moodScore (emotionTag e)))
             (contributing entries th)"
  by (induction entries arbitrary: acc)
    (auto simp: get_property_own [OF assms] contributing_def thoughtValue_def
      split: option.splits)

lemma thoughtMoodPairs_contributing:
  "th \<notin> set objectPrototypeNames \<Longrightarrow>
     thoughtMoodPairs entries th =
       map (\<lambda>e. (Number (thoughtValue e th), moodScore (emotionTag e))) (contributing entries th)"
  by (simp add: thoughtMoodPairs_def thoughtMoodPairs_fold)

lemma calculateThoughtImpact_mean:
  assumes "th \<notin> set objectPrototypeNames"
  shows "calculateThoughtImpact entries th =
     (if length (contributing entries th) < 3 then Num 0
      else js_div (js_mean (coMovements entries th)) (Num 10))"
proof -
  let ?rs = "contributing entries th"
  let ?tv = "map (\<lambda>e. thoughtValue e th) ?rs"
  let ?mv = "map (\<lambda>e. moodScore (emotionTag e)) ?rs"
  let ?F = "\<lambda>e. js_mul (js_sub (thoughtValue e th) (js_mean ?tv))
                       (js_sub (moodScore (emotionTag e)) (js_mean ?mv))"
  have fst: "map fst (thoughtMoodPairs entries th) = map Number ?tv"
    and snd: "map snd (thoughtMoodPairs entries th) = ?mv"
    by (simp_all add: thoughtMoodPairs_contributing [OF assms] comp_def)
  have "map (\<lambda>i. js_mul (js_sub (to_number (map Number ?tv ! i)) (js_mean ?tv))
                          (js_sub (?mv ! i) (js_mean ?mv))) [0..<length ?rs] = map ?F ?rs"
    by (rule nth_equalityI) auto
  then have s: "fold (\<lambda>i c. js_add c (js_mul (js_sub (to_number (map Number ?tv ! i)) (js_mean ?tv))
                                          (js_sub (?mv ! i) (js_mean ?mv))))
                  [0..<length ?rs] (Num 0) = reduce_add (coMovements entries th)"
    by (simp add: fold_js_add reduce_add_def coMovements_def Let_def)
  have l: "length (coMovements entries th) = length ?rs"
    by (simp add: coMovements_def Let_def)
  have len: "length (map Number ?tv) = length ?rs" "length ?mv = length ?rs"
    by simp_all
  have m: "js_div (to_number (reduce_plus (map Number ?tv))) (js_nat (length ?rs)) = js_mean ?tv"
    using mean_of_numbers [of ?tv] by simp
  have m': "js_div (reduce_add ?mv) (js_nat (length ?rs)) = js_mean ?mv"
    by (simp add: js_mean_def)
  have "calculateThoughtImpact entries th =
     (if length ?rs < 3 then Num 0
      else js_div (js_div (reduce_add (coMovements entries th)) (js_nat (length ?rs))) (Num 10))"
    unfolding calculateThoughtImpact_def Let_def fst snd len m m' s ..
  also have "js_div (reduce_add (coMovements entries th)) (js_nat (length ?rs)) =
             js_mean (coMovements entries th)"
    unfolding js_mean_def l ..
  finally show ?thesis .
qed

lemma fold_thoughtStep:
  "fold (thoughtStep entries) ths acc = acc @ map (thoughtAt entries) ths"
  by (induction ths arbitrary: acc) (simp_all add: thoughtStep_def)

lemma analyzeThoughtPatterns_unfold:
  "analyzeThoughtPatterns entries = take 5 (map (thoughtAt entries) (thoughtKeys entries))"
  using slice_prefix [of _ 5] by (simp add: analyzeThoughtPatterns_def fold_thoughtStep)

lemma thoughtAt_fields:
  assumes "th \<notin> set objectPrototypeNames"
  shows "thought (thoughtAt entries th) = th"
    and "correlation (thoughtAt entries th) =
     (if 3 \<le> length (contributing entries th)
      then round2 (js_div (js_mean (coMovements entries th)) (Num 10)) else Num 0)"
    and "length (contributing entries th) < 3 \<Longrightarrow> impact (thoughtAt entries th) = ''neutral''"
  by (simp_all add: thoughtAt_def Let_def calculateThoughtImpact_mean [OF assms] round2_def
      zero_times_hundred zero_is_neutral)

text \<open>
  C2 (as amended). Where no thought label is the name of a member of \<^verbatim>\<open>Object.prototype\<close>,
  the reported thought entries are those of the first five labels in discovery order. For a
  label with at least 3 contributing records the reported association is the mean of
  \<open>(thoughtValue - thoughtMean) * (moodValue - moodMean)\<close> over the contributing records,
  divided by the damping constant 10 and rounded to 2 decimal places, every operation in the
  binary64 arithmetic of the program: the sum of the products is divided by the count once.
  For a label present in fewer than 3 records the association is 0 and the classification is
  neutral.
\<close>

theorem thought_association_is_damped_mean:
  fixes entries :: "daily_entry list"
  assumes "\<forall>e \<in> set entries. \<forall>k \<in> set (Object_keys (thoughts e)). k \<notin> set objectPrototypeNames"
  shows "map (\<lambda>tp. (thought tp, correlation tp)) (analyzeThoughtPatterns entries) =
     take 5 (map (\<lambda>th. (th, if 3 \<le> length (contributing entries th)
                              then round2 (js_div (js_mean (coMovements entries th)) (Num 10))
                              else Num 0))
               (thoughtKeys entries))
   \<and> (\<forall>tp \<in> set (analyzeThoughtPatterns entries).
         length (contributing entries (thought tp)) < 3 \<longrightarrow>
           correlation tp = Num 0 \<and> impact tp = ''neutral'')"
proof -
  have own: "th \<notin> set objectPrototypeNames" if "th \<in> set (thoughtKeys entries)" for th
    using that assms by (auto simp: set_thoughtKeys)
  have "map (\<lambda>th. (thought (thoughtAt entries th), correlation (thoughtAt entries th)))
          (thoughtKeys entries) =
        map (\<lambda>th. (th, if 3 \<le> length (contributing entries th)
                              then round2 (js_div (js_mean (coMovements entries th)) (Num 10))
                              else Num 0))
          (thoughtKeys entries)"
    by (rule map_cong [OF refl]) (simp add: thoughtAt_fields [OF own])
  then have first: "map (\<lambda>tp. (thought tp, correlation tp)) (analyzeThoughtPatterns entries) =
     take 5 (map (\<lambda>th. (th, if 3 \<le> length (contributing entries th)
                              then round2 (js_div (js_mean (coMovements entries th)) (Num 10))
                              else Num 0))
               (thoughtKeys entries))"
    by (simp only: analyzeThoughtPatterns_unfold take_map [symmetric] map_map comp_def)
  have second: "\<forall>tp \<in> set (analyzeThoughtPatterns entries).
         length (contributing entries (thought tp)) < 3 \<longrightarrow>
           correlation tp = Num 0 \<and> impact tp = ''neutral''"
  proof
    fix tp assume "tp \<in> set (analyzeThoughtPatterns entries)"
    then obtain th where th: "th \<in> set (thoughtKeys entries)" and tp: "tp = thoughtAt entries th"
      unfolding analyzeThoughtPatterns_unfold by (auto dest!: in_set_takeD)
    show "length (contributing entries (thought tp)) < 3 \<longrightarrow>
           correlation tp = Num 0 \<and> impact tp = ''neutral''"
      unfolding tp by (simp add: thoughtAt_fields [OF own [OF th]])
  qed
  from first second show ?thesis by (rule conjI)
qed

theorem thought_association_is_damped_mean_witness:
  "thoughtKeys sparseThoughts = [''focus'']
   \<and> ''focus'' \<notin> set objectPrototypeNames
   \<and> thoughtKeys thoughtWeek = [''clarity'']
   \<and> ''clarity'' \<notin> set objectPrototypeNames
   \<and> thoughtAt sparseThoughts ''focus'' \<in> set (analyzeThoughtPatterns sparseThoughts)
   \<and> length (contributing sparseThoughts (thought (thoughtAt sparseThoughts ''focus''))) < 3
   \<and> correlation (thoughtAt sparseThoughts ''focus'') = Num 0
   \<and> impact (thoughtAt sparseThoughts ''focus'') = ''neutral''
   \<and> map (\<lambda>tp. (thought tp, correlation tp)) (analyzeThoughtPatterns thoughtWeek) =
       [(''clarity'', Num (3602879701896397 / 9007199254740992))]"
proof -
  have a: "\<forall>e \<in> set sparseThoughts. \<forall>k \<in> set (Object_keys (thoughts e)). k \<notin> set objectPrototypeNames"
    by code_simp
  have b: "\<forall>e \<in> set thoughtWeek. \<forall>k \<in> set (Object_keys (thoughts e)). k \<notin> set objectPrototypeNames"
    by code_simp
  have 1: "thoughtAt sparseThoughts ''focus'' \<in> set (analyzeThoughtPatterns sparseThoughts)"
    by code_simp
  have 2: "length (contributing sparseThoughts (thought (thoughtAt sparseThoughts ''focus''))) < 3"
    by code_simp
  have 3: "take 5 (map (\<lambda>th. (th, if 3 \<le> length (contributing thoughtWeek th)
                              then round2 (js_div (js_mean (coMovements thoughtWeek th)) (Num 10))
                              else Num 0))
               (thoughtKeys thoughtWeek)) =
           [(''clarity'', Num (3602879701896397 / 9007199254740992))]"
    by code_simp
  from thought_association_is_damped_mean [OF a] 1 2
  have "correlation (thoughtAt sparseThoughts ''focus'') = Num 0
        \<and> impact (thoughtAt sparseThoughts ''focus'') = ''neutral''"
    by blast
  moreover have "thoughtKeys sparseThoughts = [''focus'']" "''focus'' \<notin> set objectPrototypeNames"
    "thoughtKeys thoughtWeek = [''clarity'']" "''clarity'' \<notin> set objectPrototypeNames"
    by code_simp+
  ultimately show ?thesis
    using thought_association_is_damped_mean [OF b] 1 2 3 by simp
qed

text \<open>
  The statistic with the mean divided again by the count is not what is reported: for the
  five sample days the products have mean 4, the reported association is the binary64 value
  of 0.4, above 0.3, and the claimed one would be that of 0.08, below 0.1.
\<close>

theorem association_not_divided_twice:
  "length thoughtWeek = 5
   \<and> length (contributing thoughtWeek ''clarity'') = 5
   \<and> js_mean (coMovements thoughtWeek ''clarity'') = Num 4
   \<and> thoughtPatterns (analyzePatterns thoughtWeek) =
       [\<lparr>thought = ''clarity'', correlation = Num (3602879701896397 / 9007199254740992),
         impact = ''positive''\<rparr>]
   \<and> js_lt (Num (3 / 10)) (Num (3602879701896397 / 9007199254740992))
   \<and> claimedAssociation thoughtWeek ''clarity'' = Num (5764607523034235 / 72057594037927936)
   \<and> js_lt (claimedAssociation thoughtWeek ''clarity'') (Num (1 / 10))"
  by code_simp

section \<open>Trend analyzer\<close>

lemma categoryValues_fold:
  assumes "cat \<notin> set objectPrototypeNames"
  shows "fold (\<lambda>e vals. case get_property (categories e) cat of
                     None \<Rightarrow> vals
                   | Some v \<Rightarrow> vals @ [v]) entries acc =
     acc @ map Number (categoryValues entries cat)"
  by (induction entries arbitrary: acc)
    (auto simp: get_property_own [OF assms] categoryValues_def map_filter_simps
      split: option.splits)

lemma calculateCategoryAverage_mean:
  assumes "cat \<notin> set objectPrototypeNames"
  shows "calculateCategoryAverage window cat =
     (if categoryValues window cat = [] then None
      else Some (js_mean (categoryValues window cat)))"
  using mean_of_numbers [of "categoryValues window cat"]
  by (simp add: calculateCategoryAverage_def categoryValues_fold [OF assms] Let_def)

lemma recent_window: "slice_from xs (- 7) = lastSeven xs"
  using slice_from_last [of 7 xs] by (simp add: lastSeven_def rev_take)

lemma older_window: "slice xs (- 14) (- 7) = previousSeven xs"
  using slice_older [of 7 14 xs] by (simp add: previousSeven_def)

lemma fold_trendStep:
  "fold (trendStep recent older) cats acc = acc @ List.map_filter (trendOf recent older) cats"
  by (induction cats arbitrary: acc)
    (auto simp: trendStep_def map_filter_simps split: option.splits)

lemma analyzeCategoryTrends_unfold:
  "analyzeCategoryTrends entries =
     (if length entries < 7 then []
      else List.map_filter (trendOf (lastSeven entries) (previousSeven entries))
             (categoryKeys entries))"
  by (simp add: analyzeCategoryTrends_def Let_def recent_window older_window fold_trendStep)

lemma trendOf_category: "trendOf recent older cat = Some t \<Longrightarrow> category t = cat"
  by (auto simp: trendOf_def Let_def split: option.splits)

lemma trendOf_None:
  "cat \<notin> set objectPrototypeNames \<Longrightarrow>
     trendOf recent older cat = None \<longleftrightarrow>
       categoryValues recent cat = [] \<or> categoryValues older cat = []"
  by (simp add: trendOf_def calculateCategoryAverage_mean Let_def)

lemma trendOf_Some:
  assumes "cat \<notin> set objectPrototypeNames" and "trendOf recent older cat = Some t"
  shows "change t = Math_round (js_mul (js_div (js_sub (js_mean (categoryValues recent cat))
                       (js_mean (categoryValues older cat))) (js_mean (categoryValues older cat)))
                       (Num 100))"
    and "trend t =
          (if js_gt (js_mul (js_div (js_sub (js_mean (categoryValues recent cat))
                       (js_mean (categoryValues older cat))) (js_mean (categoryValues older cat)))
                       (Num 100)) (Num 10)
           then ''improving''
           else if js_lt (js_mul (js_div (js_sub (js_mean (categoryValues recent cat))
                       (js_mean (categoryValues older cat))) (js_mean (categoryValues older cat)))
                       (Num 100)) (Num (- 10))
           then ''declining'' else ''stable'')"
  using assms(2)
  by (auto simp: trendOf_def calculateCategoryAverage_mean [OF assms(1)] Let_def
      split: if_splits)

lemma categories_of_map_filter:
  "map category (List.map_filter (trendOf recent older) cats) =
     filter (\<lambda>c. trendOf recent older c \<noteq> None) cats"
  by (induction cats) (auto simp: map_filter_simps trendOf_category split: option.splits)

lemma map_filter_member:
  "y \<in> set (List.map_filter f xs) \<Longrightarrow> \<exists>x \<in> set xs. f x = Some y"
  by (induction xs) (auto simp: map_filter_simps split: option.splits)

lemma trend_member:
  assumes "7 \<le> length entries" and "t \<in> set (analyzeCategoryTrends entries)"
  shows "category t \<in> set (categoryKeys entries)"
    and "trendOf (lastSeven entries) (previousSeven entries) (category t) = Some t"
proof -
  from assms obtain c where c: "c \<in> set (categoryKeys entries)"
    and t: "trendOf (lastSeven entries) (previousSeven entries) c = Some t"
    by (auto simp: analyzeCategoryTrends_unfold dest: map_filter_member)
  from trendOf_category [OF t] c t
  show "category t \<in> set (categoryKeys entries)"
    and "trendOf (lastSeven entries) (previousSeven entries) (category t) = Some t"
    by simp_all
qed

lemma healthFortnight_trends:
  "analyzeCategoryTrends healthFortnight =
     [\<lparr>category = ''health'', trend = ''improving'', change = Num 60\<rparr>]"
  by code_simp

text \<open>
  Where no category label is the name of a member of \<^verbatim>\<open>Object.prototype\<close>: with fewer than
  7 records the trend analyzer returns the empty list. With at least 7 it reports exactly
  the categories, among those seen in any record, for which both the last 7 records and the
  records at positions \<open>[-14, -7)\<close> hold a record containing the category; the others are
  skipped. For a reported category, with the two means taken over the records of each
  window that contain the category, the change is
  \<open>(recentMean - olderMean) / olderMean * 100\<close> in the arithmetic of the program, classified
  improving above 10, declining below -10 and stable otherwise, and reported rounded to the
  nearest integer. For 14 records with health at 5 in the older 7 and at 8 in the recent 7,
  the change is 60 and the classification is improving.
\<close>

theorem trends_of_own_labels:
  fixes entries :: "daily_entry list"
  assumes "\<forall>e \<in> set entries. \<forall>k \<in> set (Object_keys (categories e)). k \<notin> set objectPrototypeNames"
  shows "(length entries < 7 \<longrightarrow> analyzeCategoryTrends entries = [])
   \<and> (7 \<le> length entries \<longrightarrow>
        map category (analyzeCategoryTrends entries) =
          filter (\<lambda>c. categoryValues (lastSeven entries) c \<noteq> []
                       \<and> categoryValues (previousSeven entries) c \<noteq> []) (categoryKeys entries)
        \<and> set (categoryKeys entries) = (\<Union>e \<in> set entries. set (Object_keys (categories e)))
        \<and> distinct (categoryKeys entries)
        \<and> (\<forall>t \<in> set (analyzeCategoryTrends entries).
              (let recentMean = js_mean (categoryValues (lastSeven entries) (category t));
                   olderMean = js_mean (categoryValues (previousSeven entries) (category t));
                   chg = js_mul (js_div (js_sub recentMean olderMean) olderMean) (Num 100)
               in change t = Math_round chg
                  \<and> trend t = (if js_gt chg (Num 10) then ''improving''
                                else if js_lt chg (Num (- 10)) then ''declining''
                                else ''stable''))))
   \<and> analyzeCategoryTrends healthFortnight =
       [\<lparr>category = ''health'', trend = ''improving'', change = Num 60\<rparr>]"
proof -
  have own: "c \<notin> set objectPrototypeNames" if "c \<in> set (categoryKeys entries)" for c
    using that assms by (auto simp: set_categoryKeys)
  have short: "length entries < 7 \<longrightarrow> analyzeCategoryTrends entries = []"
    by (simp add: analyzeCategoryTrends_def)
  have "filter (\<lambda>c. trendOf (lastSeven entries) (previousSeven entries) c \<noteq> None)
          (categoryKeys entries) =
        filter (\<lambda>c. categoryValues (lastSeven entries) c \<noteq> []
                       \<and> categoryValues (previousSeven entries) c \<noteq> []) (categoryKeys entries)"
    by (rule filter_cong [OF refl]) (simp add: trendOf_None [OF own])
  then have cats: "map category (analyzeCategoryTrends entries) =
          filter (\<lambda>c. categoryValues (lastSeven entries) c \<noteq> []
                       \<and> categoryValues (previousSeven entries) c \<noteq> []) (categoryKeys entries)"
    if "7 \<le> length entries"
    using that by (simp add: analyzeCategoryTrends_unfold categories_of_map_filter)
  have each: "\<forall>t \<in> set (analyzeCategoryTrends entries).
              (let recentMean = js_mean (categoryValues (lastSeven entries) (category t));
                   olderMean = js_mean (categoryValues (previousSeven entries) (category t));
                   chg = js_mul (js_div (js_sub recentMean olderMean) olderMean) (Num 100)
               in change t = Math_round chg
                  \<and> trend t = (if js_gt chg (Num 10) then ''improving''
                                else if js_lt chg (Num (- 10)) then ''declining''
                                else ''stable''))"
    if n: "7 \<le> length entries"
  proof
    fix t assume t: "t \<in> set (analyzeCategoryTrends entries)"
    note o = own [OF trend_member(1) [OF n t]]
    note some = trend_member(2) [OF n t]
    show "(let recentMean = js_mean (categoryValues (lastSeven entries) (category t));
                   olderMean = js_mean (categoryValues (previousSeven entries) (category t));
                   chg = js_mul (js_div (js_sub recentMean olderMean) olderMean) (Num 100)
               in change t = Math_round chg
                  \<and> trend t = (if js_gt chg (Num 10) then ''improving''
                                else if js_lt chg (Num (- 10)) then ''declining''
                                else ''stable''))"
      unfolding Let_def
      using trendOf_Some(1) [OF o some] trendOf_Some(2) [OF o some] by (rule conjI)
  qed
  show ?thesis
    using short cats each healthFortnight_trends set_categoryKeys [of entries]
      distinct_categoryKeys [of entries]
    by blast
qed

theorem trends_of_own_labels_witness:
  "categoryKeys healthFortnight = [''health'']
   \<and> ''health'' \<notin> set objectPrototypeNames
   \<and> 7 \<le> length healthFortnight
   \<and> \<lparr>category = ''health'', trend = ''improving'', change = Num 60\<rparr>
        \<in> set (analyzeCategoryTrends healthFortnight)
   \<and> js_mean (categoryValues (previousSeven healthFortnight) ''health'') = Num 5
   \<and> js_mean (categoryValues (lastSeven healthFortnight) ''health'') = Num 8
   \<and> Num 60 = Math_round (js_mul (js_div (js_sub (Num 8) (Num 5)) (Num 5)) (Num 100))
   \<and> map category (analyzeCategoryTrends healthFortnight) = [''health'']"
proof -
  let ?t = "\<lparr>category = ''health'', trend = ''improving'', change = Num 60\<rparr>"
  have 0: "\<forall>e \<in> set healthFortnight. \<forall>k \<in> set (Object_keys (categories e)).
             k \<notin> set objectPrototypeNames"
    by code_simp
  have 1: "7 \<le> length healthFortnight" by code_simp
  have 2: "js_mean (categoryValues (previousSeven healthFortnight) ''health'') = Num 5"
    by code_simp
  have 3: "js_mean (categoryValues (lastSeven healthFortnight) ''health'') = Num 8"
    by code_simp
  from trends_of_own_labels [OF 0]
  have ex: "analyzeCategoryTrends healthFortnight = [?t]"
    by blast
  then have mem: "?t \<in> set (analyzeCategoryTrends healthFortnight)" by simp
  from trends_of_own_labels [OF 0] 1 mem
  have "(let recentMean = js_mean (categoryValues (lastSeven healthFortnight) (category ?t));
             olderMean = js_mean (categoryValues (previousSeven healthFortnight) (category ?t));
             chg = js_mul (js_div (js_sub recentMean olderMean) olderMean) (Num 100)
         in change ?t = Math_round chg
            \<and> trend ?t = (if js_gt chg (Num 10) then ''improving''
                          else if js_lt chg (Num (- 10)) then ''declining''
                          else ''stable''))"
    by blast
  then have "Num 60 = Math_round (js_mul (js_div (js_sub (Num 8) (Num 5)) (Num 5)) (Num 100))"
    unfolding Let_def by (simp add: 2 3)
  moreover have "categoryKeys healthFortnight = [''health'']"
    "''health'' \<notin> set objectPrototypeNames"
    by code_simp+
  ultimately show ?thesis using 1 2 3 ex by simp
qed

section \<open>Inherited members read as scores\<close>

text \<open>
  C4, evaluated where it fails. Fourteen records score health at 5 in the older seven and at
  8 in the recent seven, and the last record also has the category \<open>constructor\<close>. Health is
  reported as the claim says, with change 60 and classification improving. No record of the
  older window contains \<open>constructor\<close>, so that category should be skipped; the property
  read finds the inherited member in every record without the key, the averages are NaN
  and the category is reported as stable with change NaN.
\<close>

theorem inherited_category_is_reported:
  "length constructorFortnight = 14
   \<and> categoryKeys constructorFortnight = [''health'', ''constructor'']
   \<and> categoryValues (previousSeven constructorFortnight) ''constructor'' = []
   \<and> categoryValues (lastSeven constructorFortnight) ''constructor'' = [Num 7]
   \<and> calculateCategoryAverage (previousSeven constructorFortnight) ''constructor'' = Some NaN
   \<and> calculateCategoryAverage (lastSeven constructorFortnight) ''constructor'' = Some NaN
   \<and> analyzeCategoryTrends constructorFortnight =
       [\<lparr>category = ''health'', trend = ''improving'', change = Num 60\<rparr>,
        \<lparr>category = ''constructor'', trend = ''stable'', change = NaN\<rparr>]"
  by code_simp

text \<open>
  C8, evaluated where it fails. In fourteen records of which only the last has a category,
  named \<open>toString\<close>, no record of the older window contains the category; the property read
  finds the inherited function in every record without the key, the averages are NaN and
  the category is reported, with change NaN, instead of being skipped. In five records
  without any thought, the label \<open>constructor\<close> has no contributing record, and its
  association is NaN instead of 0.
\<close>

theorem inherited_member_is_not_skipped:
  "length toStringFortnight = 14
   \<and> categoryKeys toStringFortnight = [''toString'']
   \<and> categoryValues (previousSeven toStringFortnight) ''toString'' = []
   \<and> calculateCategoryAverage (previousSeven toStringFortnight) ''toString'' = Some NaN
   \<and> analyzeCategoryTrends toStringFortnight =
       [\<lparr>category = ''toString'', trend = ''stable'', change = NaN\<rparr>]
   \<and> length bareWeek = 5
   \<and> contributing bareWeek ''constructor'' = []
   \<and> calculateThoughtImpact bareWeek ''constructor'' = NaN"
  by code_simp

end
